theory Spec2Isabelle
  imports Complex_Main
begin

section \<open>Python values\<close>

text \<open>
  A Python \<open>str\<close> is a sequence of Unicode code points, so it is a list of naturals
  here (the CJK punctuation the translator looks for does not fit an 8-bit character).
  \<open>ustr\<close> writes an ASCII literal as such a string.
\<close>

type_synonym pystr = "nat list"

definition ustr :: "string \<Rightarrow> pystr" where
  "ustr s = map of_char s"

text \<open>
  \<open>str.strip()\<close>, \<open>lstrip()\<close> and \<open>rstrip()\<close> without argument remove the
  characters for which \<open>str.isspace\<close> holds; this is CPython's table of them.
\<close>

definition isspace :: "nat \<Rightarrow> bool" where
  "isspace c \<longleftrightarrow>
     (9 \<le> c \<and> c \<le> 13) \<or> (28 \<le> c \<and> c \<le> 32) \<or> c = 133 \<or> c = 160 \<or> c = 5760 \<or>
     (8192 \<le> c \<and> c \<le> 8202) \<or> c = 8232 \<or> c = 8233 \<or> c = 8239 \<or> c = 8287 \<or> c = 12288"

definition lstrip :: "pystr \<Rightarrow> pystr" where
  "lstrip s = dropWhile isspace s"

definition rstrip :: "pystr \<Rightarrow> pystr" where
  "rstrip s = rev (dropWhile isspace (rev s))"

definition strip :: "pystr \<Rightarrow> pystr" where
  "strip s = lstrip (rstrip s)"

text \<open>
  The values \<open>json.loads\<close> and \<open>response.json()\<close> produce: \<open>None\<close>, \<open>bool\<close>,
  \<open>int\<close>, \<open>float\<close>, \<open>str\<close>, \<open>list\<close> and \<open>dict\<close> (a dict keeps insertion order).
\<close>

datatype json =
    JNull
  | JBool bool
  | JInt int
  | JFloat real
  | JString pystr
  | JArray "json list"
  | JObject "(pystr \<times> json) list"

text \<open>Python's truth value of such a value (\<open>if x\<close>, \<open>x and ...\<close>).\<close>

fun truthy :: "json \<Rightarrow> bool" where
  "truthy JNull = False"
| "truthy (JBool b) = b"
| "truthy (JInt i) = (i \<noteq> 0)"
| "truthy (JFloat r) = (r \<noteq> 0)"
| "truthy (JString s) = (s \<noteq> [])"
| "truthy (JArray xs) = (xs \<noteq> [])"
| "truthy (JObject kvs) = (kvs \<noteq> [])"

text \<open>
  Exceptions. \<open>TranslationError\<close> is the translator's own (its four messages are the four
  constructors of \<open>translation_error\<close>); \<open>IllegalCharacterError\<close> is openpyxl's; the
  others are Python's. Neither the translator nor the document handlers catch them where
  the model returns them.
\<close>

datatype translation_error =
    FailedToContact
  | ApiReturned int pystr
  | CouldNotParse
  | CountMismatch

datatype error =
    TranslationError translation_error
  | KeyError
  | IndexError
  | TypeError
  | AttributeError
  | JSONDecodeError
  | ValueError
  | IllegalCharacterError

section \<open>The translator (backend/translator.py)\<close>

subsection \<open>What the translator uses and this repository does not define\<close>

record payload =
  model :: pystr
  messages :: "(pystr \<times> pystr) list"
  temperature :: real

record request =
  endpoint :: pystr
  json_payload :: payload
  headers :: "(pystr \<times> pystr) list"
  timeout :: nat

text \<open>
  The outcome of \<open>requests.post\<close>: a \<open>RequestException\<close>, or a response with its
  \<open>status_code\<close>, its \<open>text\<close> and what \<open>response.json()\<close> gives (\<open>None\<close> when the
  body is not JSON and the call raises).
\<close>

datatype http_result =
    RequestException
  | Response int pystr "json option"

text \<open>
  The library functions the translator calls are parameters of the model:
  \<^item> \<open>json_loads\<close>: \<open>json.loads\<close>, \<open>None\<close> for a \<open>JSONDecodeError\<close>;
  \<^item> \<open>json_dumps\<close>: \<open>json.dumps\<close> of a list of strings with \<open>ensure_ascii=False\<close>;
  \<^item> \<open>search_fenced\<close>: group 1 of the first match of the code-fence pattern,
    \<open>None\<close> when \<open>re.search\<close> finds no match;
  \<^item> \<open>islower\<close>: \<open>str.islower\<close> of a one-character string;
  \<^item> \<open>repr_of\<close>: \<open>str(x)\<close> of a value that is not a \<open>str\<close>;
  \<^item> \<open>requests_post\<close>: the provider, as a function of the request sent.
\<close>

record pylib =
  json_loads :: "pystr \<Rightarrow> json option"
  json_dumps :: "pystr list \<Rightarrow> pystr"
  search_fenced :: "pystr \<Rightarrow> pystr option"
  islower :: "nat \<Rightarrow> bool"
  repr_of :: "json \<Rightarrow> pystr"
  requests_post :: "request \<Rightarrow> http_result"

text \<open>\<open>str(item)\<close>: a \<open>str\<close> is returned as it is.\<close>

definition py_str :: "pylib \<Rightarrow> json \<Rightarrow> pystr" where
  "py_str lib item = (case item of JString s \<Rightarrow> s | _ \<Rightarrow> repr_of lib item)"

text \<open>The two settings the translator reads from \<open>backend/config.py\<close>.\<close>

record settings =
  openrouter_api_base :: pystr
  default_model :: pystr

record translation_config =
  api_key :: pystr
  config_model :: pystr
  source_lang :: "pystr option"
  target_lang :: pystr
  config_temperature :: real

subsection \<open>Finding the JSON array in a response\<close>

text \<open>
  \<open>message.find('[')\<close>: the index of the first occurrence, \<open>None\<close> for Python's \<open>-1\<close>.
\<close>

fun find_char :: "nat \<Rightarrow> pystr \<Rightarrow> nat option" where
  "find_char c [] = None"
| "find_char c (x # xs) = (if x = c then Some 0 else map_option Suc (find_char c xs))"

text \<open>
  The loop of \<open>_find_json_array\<close> over \<open>range(start, len(message))\<close>: \<open>idx\<close> is the
  index of the first character of the remaining text. The characters are \<open>34\<close> (double
  quote), \<open>92\<close> (backslash), \<open>91\<close> and \<open>93\<close> (the brackets). The result is the index
  at which the loop returns, \<open>None\<close> when it runs to the end.
\<close>

fun scan_array :: "nat \<Rightarrow> int \<Rightarrow> bool \<Rightarrow> bool \<Rightarrow> pystr \<Rightarrow> nat option" where
  "scan_array idx depth in_string escape [] = None"
| "scan_array idx depth in_string escape (char # rest) =
     (let in_string = (if char = 34 \<and> \<not> escape then \<not> in_string else in_string) in
      if in_string then scan_array (idx + 1) depth in_string (char = 92 \<and> \<not> escape) rest
      else
        let escape = (char = 92 \<and> \<not> escape) in
        if char = 91 then scan_array (idx + 1) (depth + 1) in_string escape rest
        else if char = 93 then
          (if depth - 1 = 0 then Some idx
           else scan_array (idx + 1) (depth - 1) in_string escape rest)
        else scan_array (idx + 1) depth in_string escape rest)"

definition find_json_array :: "pystr \<Rightarrow> pystr option" where
  "find_json_array message =
     (case find_char 91 message of
        None \<Rightarrow> None
      | Some start \<Rightarrow>
          (case scan_array start 0 False False (drop start message) of
             None \<Rightarrow> None
           | Some idx \<Rightarrow> Some (drop start (take (idx + 1) message))))"

subsection \<open>Parsing the response\<close>

text \<open>
  The body of each of the three \<open>try\<close> blocks of \<open>_extract_translations\<close>: parse, and
  return the value when it is a list of the expected length (or nothing was expected).
\<close>

definition try_parse :: "pylib \<Rightarrow> pystr \<Rightarrow> nat \<Rightarrow> json list option" where
  "try_parse lib snippet expected_count =
     (case json_loads lib snippet of
        Some (JArray parsed) \<Rightarrow>
          if expected_count = length parsed \<or> expected_count = 0 then Some parsed else None
      | _ \<Rightarrow> None)"

definition extract_translations :: "pylib \<Rightarrow> pystr \<Rightarrow> nat \<Rightarrow> error + json list" where
  "extract_translations lib message expected_count =
     (case try_parse lib message expected_count of
        Some parsed \<Rightarrow> Inr parsed
      | None \<Rightarrow>
          (case (case search_fenced lib message of
                   Some snippet \<Rightarrow> try_parse lib snippet expected_count
                 | None \<Rightarrow> None) of
             Some parsed \<Rightarrow> Inr parsed
           | None \<Rightarrow>
               (case (case find_json_array message of
                        Some array_snippet \<Rightarrow>
                          if array_snippet \<noteq> [] then try_parse lib array_snippet expected_count
                          else None
                      | None \<Rightarrow> None) of
                  Some parsed \<Rightarrow> Inr parsed
                | None \<Rightarrow> Inl (TranslationError CouldNotParse))))"

subsection \<open>Reconciling the count\<close>

definition closing_punctuation :: "nat list" where
  "closing_punctuation = ustr '',.;:!?)]}''"

text \<open>
  The tuple given to \<open>endswith\<close>: full stop, exclamation mark, question mark, and their
  CJK forms U+3002, U+FF01 and U+FF1F.
\<close>

definition terminal_punctuation :: "nat list" where
  "terminal_punctuation = [46, 33, 63, 12290, 65281, 65311]"

definition endswith_any :: "pystr \<Rightarrow> nat list \<Rightarrow> bool" where
  "endswith_any s cs \<longleftrightarrow> s \<noteq> [] \<and> last s \<in> set cs"

text \<open>
  The items of a parsed array are annotated \<open>str\<close> but can be any JSON value; a string
  method called on another value raises \<open>AttributeError\<close>.
\<close>

definition str_method :: "(pystr \<Rightarrow> 'a) \<Rightarrow> json \<Rightarrow> error + 'a" where
  "str_method f item = (case item of JString s \<Rightarrow> Inr (f s) | _ \<Rightarrow> Inl AttributeError)"

text \<open>
  The loop of \<open>_find_merge_index\<close> over \<open>range(1, len(items))\<close>: \<open>previous\<close> is
  \<open>items[idx - 1]\<close> and the list holds \<open>items[idx:]\<close>. \<open>None\<close> when the loop ends
  without returning.
\<close>

fun scan_merge :: "pylib \<Rightarrow> nat \<Rightarrow> json \<Rightarrow> json list \<Rightarrow> error + nat option" where
  "scan_merge lib idx previous [] = Inr None"
| "scan_merge lib idx previous (item # rest) =
     (case str_method lstrip item of
        Inl e \<Rightarrow> Inl e
      | Inr segment \<Rightarrow>
          if segment = [] then Inr (Some (idx - 1))
          else
            let first_char = hd segment in
            if first_char \<in> set closing_punctuation then Inr (Some (idx - 1))
            else
              (case (if truthy previous
                     then str_method (\<lambda>p. \<not> endswith_any (rstrip p) terminal_punctuation) previous
                     else Inr False) of
                 Inl e \<Rightarrow> Inl e
               | Inr unfinished \<Rightarrow>
                   if unfinished then Inr (Some (idx - 1))
                   else if islower lib first_char then Inr (Some (idx - 1))
                   else scan_merge lib (idx + 1) item rest))"

definition find_merge_index :: "pylib \<Rightarrow> json list \<Rightarrow> error + nat" where
  "find_merge_index lib items =
     (case (case items of [] \<Rightarrow> Inr None | first # rest \<Rightarrow> scan_merge lib 1 first rest) of
        Inl e \<Rightarrow> Inl e
      | Inr (Some idx) \<Rightarrow> Inr idx
      | Inr None \<Rightarrow> Inr (nat (max 0 (int (length items) - 2))))"

text \<open>
  \<open>_concat_segments\<close>: \<open>concat_str\<close> is its body after \<open>left = left.rstrip()\<close> and
  \<open>right = right.lstrip()\<close>; \<open>32\<close> is the space.
\<close>

definition concat_str :: "pystr \<Rightarrow> pystr \<Rightarrow> pystr" where
  "concat_str left right =
     (if left = [] then right
      else if right = [] then left
      else if hd right \<in> set closing_punctuation then left @ right
      else left @ [32] @ right)"

definition concat_segments :: "json \<Rightarrow> json \<Rightarrow> error + json" where
  "concat_segments left right =
     (case str_method rstrip left of
        Inl e \<Rightarrow> Inl e
      | Inr left \<Rightarrow>
          (case str_method lstrip right of
             Inl e \<Rightarrow> Inl e
           | Inr right \<Rightarrow> Inr (JString (concat_str left right))))"

text \<open>
  The index \<open>_find_merge_index\<close> returns leaves room for the item after it, so
  \<open>merged.pop(idx + 1)\<close> in \<open>_merge_extra_items\<close> never raises and shortens the list.
\<close>

lemma scan_merge_bounds:
  "scan_merge lib idx previous rest = Inr (Some i) \<Longrightarrow> 0 < idx \<Longrightarrow>
     idx \<le> i + 1 \<and> i + 1 < idx + length rest"
proof (induction rest arbitrary: idx previous)
  case Nil
  then show ?case by simp
next
  case (Cons item rest)
  show ?case
  proof (cases "scan_merge lib (idx + 1) item rest = Inr (Some i)")
    case True
    from Cons.IH [OF True] show ?thesis by simp
  next
    case False
    with Cons.prems have "i = idx - 1"
      by (auto simp: Let_def split: sum.splits if_splits)
    with Cons.prems(2) show ?thesis by simp
  qed
qed

lemma find_merge_index_bound:
  assumes "find_merge_index lib items = Inr idx" and "1 < length items"
  shows "idx + 2 \<le> length items"
proof (cases items)
  case Nil
  with assms show ?thesis by simp
next
  case (Cons first rest)
  show ?thesis
  proof (cases "scan_merge lib 1 first rest")
    case (Inl e)
    with assms Cons show ?thesis by (simp add: find_merge_index_def)
  next
    case (Inr found)
    show ?thesis
    proof (cases found)
      case None
      with assms Cons Inr show ?thesis by (cases rest) (auto simp: find_merge_index_def)
    next
      case (Some i)
      with assms Cons Inr have "i = idx" by (simp add: find_merge_index_def)
      with scan_merge_bounds [of lib 1 first rest i] Inr Some Cons show ?thesis by simp
    qed
  qed
qed

text \<open>
  \<open>_merge_extra_items\<close>: \<open>merged[idx] = concat(merged[idx], merged.pop(idx + 1))\<close>
  replaces the items at \<open>idx\<close> and \<open>idx + 1\<close> by their concatenation.
\<close>

function merge_extra_items :: "pylib \<Rightarrow> json list \<Rightarrow> nat \<Rightarrow> error + json list" where
  "merge_extra_items lib merged expected =
     (if length merged > expected \<and> length merged > 1 then
        (case find_merge_index lib merged of
           Inl e \<Rightarrow> Inl e
         | Inr idx \<Rightarrow>
             (case concat_segments (merged ! idx) (merged ! (idx + 1)) of
                Inl e \<Rightarrow> Inl e
              | Inr joined \<Rightarrow>
                  merge_extra_items lib (take idx merged @ joined # drop (idx + 2) merged) expected))
      else Inr merged)"
  by pat_completeness auto
termination
proof (relation "measure (\<lambda>(lib, merged, expected). length merged)")
  show "wf (measure (\<lambda>(lib, merged, expected). length merged))" by simp
next
  fix lib :: pylib and merged :: "json list" and expected idx :: nat and joined :: json
  assume "expected < length merged \<and> 1 < length merged"
    and "find_merge_index lib merged = Inr idx"
  then have "idx + 2 \<le> length merged" using find_merge_index_bound by blast
  then show "((lib, take idx merged @ joined # drop (idx + 2) merged, expected),
              (lib, merged, expected)) \<in> measure (\<lambda>(lib, merged, expected). length merged)"
    by simp
qed

declare merge_extra_items.simps [simp del]

definition pad_missing_items :: "json list \<Rightarrow> pystr list \<Rightarrow> json list" where
  "pad_missing_items items originals =
     items @ map (\<lambda>idx. JString (originals ! idx)) [length items ..< length originals]"

definition reconcile_translation_count ::
    "pylib \<Rightarrow> json list \<Rightarrow> pystr list \<Rightarrow> error + json list" where
  "reconcile_translation_count lib translations original_texts =
     (let expected = length original_texts; current = length translations in
      if expected = 0 \<or> current = expected then Inr translations
      else
        let tolerance = max 3 (expected div 5 + 1) in
        if \<bar>int current - int expected\<bar> > int tolerance then Inr translations
        else
          (case (if current > expected then merge_extra_items lib translations expected
                 else Inr translations) of
             Inl e \<Rightarrow> Inl e
           | Inr adjusted \<Rightarrow>
               Inr (if length adjusted < expected
                    then pad_missing_items adjusted original_texts
                    else adjusted)))"

subsection \<open>The request and the whole translation\<close>

definition build_request_payload ::
    "pylib \<Rightarrow> settings \<Rightarrow> translation_config \<Rightarrow> pystr list \<Rightarrow> payload" where
  "build_request_payload lib st config texts =
     (let source = (case source_lang config of
                      None \<Rightarrow> ustr ''auto-detect''
                    | Some s \<Rightarrow> if s \<noteq> [] then s else ustr ''auto-detect'');
          target = target_lang config;
          instructions =
            ustr ''You are a professional translation engine. Translate each input string from ''
            @ source @ ustr '' to '' @ target
            @ ustr ''. Preserve placeholders such as {variable} or HTML tags. ''
            @ ustr ''Return ONLY a valid JSON array of translated strings matching the input order with no extra text.''
      in \<lparr> model = (if config_model config \<noteq> [] then config_model config else default_model st),
           messages =
             [(ustr ''system'', instructions),
              (ustr ''system'',
               ustr ''Do not include reasoning, commentary, or code fences. Respond with the JSON array only.''),
              (ustr ''user'', json_dumps lib texts)],
           temperature = config_temperature config \<rparr>)"

definition mock_translate :: "translation_config \<Rightarrow> pystr \<Rightarrow> pystr" where
  "mock_translate config text =
     (let target = (if target_lang config \<noteq> [] then target_lang config else ustr ''translated'')
      in ustr ''['' @ target @ ustr ''] '' @ text)"

text \<open>
  \<open>settings.openrouter_api_base.rstrip("/")\<close>, computed when the translator is made.
\<close>

definition api_base :: "settings \<Rightarrow> pystr" where
  "api_base st = rev (dropWhile (\<lambda>c. c = 47) (rev (openrouter_api_base st)))"

text \<open>Subscripting a JSON value with a string key, and with the index \<open>0\<close>.\<close>

definition getitem_key :: "json \<Rightarrow> pystr \<Rightarrow> error + json" where
  "getitem_key v k =
     (case v of
        JObject kvs \<Rightarrow> (case map_of kvs k of None \<Rightarrow> Inl KeyError | Some x \<Rightarrow> Inr x)
      | _ \<Rightarrow> Inl TypeError)"

definition getitem_0 :: "json \<Rightarrow> error + json" where
  "getitem_0 v =
     (case v of
        JArray xs \<Rightarrow> (case xs of [] \<Rightarrow> Inl IndexError | x # _ \<Rightarrow> Inr x)
      | JString s \<Rightarrow> (case s of [] \<Rightarrow> Inl IndexError | c # _ \<Rightarrow> Inr (JString [c]))
      | JObject kvs \<Rightarrow> Inl KeyError
      | _ \<Rightarrow> Inl TypeError)"

text \<open>\<open>data["choices"][0]["message"]["content"].strip()\<close>\<close>

definition read_message_content :: "json \<Rightarrow> error + pystr" where
  "read_message_content data =
     (case getitem_key data (ustr ''choices'') of
        Inl e \<Rightarrow> Inl e
      | Inr choices \<Rightarrow>
          (case getitem_0 choices of
             Inl e \<Rightarrow> Inl e
           | Inr choice \<Rightarrow>
               (case getitem_key choice (ustr ''message'') of
                  Inl e \<Rightarrow> Inl e
                | Inr message \<Rightarrow>
                    (case getitem_key message (ustr ''content'') of
                       Inl e \<Rightarrow> Inl e
                     | Inr content \<Rightarrow> str_method strip content))))"

text \<open>
  Lines 70 to 76 of \<open>translate_texts\<close>: what it does with the provider's message.
\<close>

definition translations_of_message :: "pylib \<Rightarrow> pystr list \<Rightarrow> pystr \<Rightarrow> error + pystr list" where
  "translations_of_message lib texts message_content =
     (case extract_translations lib message_content (length texts) of
        Inl e \<Rightarrow> Inl e
      | Inr translations \<Rightarrow>
          (case (if length translations \<noteq> length texts
                 then reconcile_translation_count lib translations texts
                 else Inr translations) of
             Inl e \<Rightarrow> Inl e
           | Inr translations \<Rightarrow>
               if length translations \<noteq> length texts
               then Inl (TranslationError CountMismatch)
               else Inr (map (py_str lib) translations)))"

text \<open>
  \<open>translate_texts\<close> returns the translations or raises; the second component of the
  result lists the requests it has sent to the provider.
\<close>

definition translate_texts ::
    "pylib \<Rightarrow> settings \<Rightarrow> translation_config \<Rightarrow> pystr list
      \<Rightarrow> (error + pystr list) \<times> request list" where
  "translate_texts lib st config texts =
     (if texts = [] then (Inr [], [])
      else if api_key config = [] then (Inr (map (mock_translate config) texts), [])
      else
        let req = \<lparr> endpoint = api_base st @ ustr ''/chat/completions'',
                    json_payload = build_request_payload lib st config texts,
                    headers = [(ustr ''Authorization'', ustr ''Bearer '' @ api_key config),
                               (ustr ''Content-Type'', ustr ''application/json'')],
                    timeout = 60 \<rparr>
        in (case requests_post lib req of
              RequestException \<Rightarrow> Inl (TranslationError FailedToContact)
            | Response status_code text body \<Rightarrow>
                if status_code \<ge> 400 then Inl (TranslationError (ApiReturned status_code text))
                else
                  (case body of
                     None \<Rightarrow> Inl JSONDecodeError
                   | Some data \<Rightarrow>
                       (case read_message_content data of
                          Inl e \<Rightarrow>
                            if e = KeyError \<or> e = IndexError
                            then Inl (TranslationError CouldNotParse)
                            else Inl e
                        | Inr content \<Rightarrow> translations_of_message lib texts content)),
            [req]))"

section \<open>The document handlers (backend/document_handler.py)\<close>


text \<open>
  An index formatted in an f-string: the decimal digits of a natural number (the
  indices come from \<open>enumerate\<close> or are openpyxl's 1-based rows and columns).
\<close>

function decimal :: "nat \<Rightarrow> pystr" where
  "decimal n = (if n < 10 then [48 + n] else decimal (n div 10) @ [48 + n mod 10])"
  by pat_completeness auto
termination
  by (relation "measure id") auto

declare decimal.simps [simp del]



subsection \<open>Exceptions of the libraries\<close>




fun foldl_result :: "('s \<Rightarrow> 'x \<Rightarrow> 'e + 's) \<Rightarrow> 's \<Rightarrow> 'x list \<Rightarrow> 'e + 's" where
  "foldl_result f state [] = Inr state"
| "foldl_result f state (x # xs) =
     (case f state x of Inl e \<Rightarrow> Inl e | Inr state' \<Rightarrow> foldl_result f state' xs)"


subsection \<open>PowerPoint\<close>

text \<open>
  The objects of python-pptx as the handler uses them. A shape has a text frame (its
  paragraphs) when \<open>has_text_frame\<close> holds and a table (its rows of cells) when
  \<open>has_table\<close> holds. The text frame of a table cell always has a first paragraph.
\<close>

datatype pp_align = CENTER | DISTRIBUTE | JUSTIFY | JUSTIFY_LOW | LEFT | RIGHT | THAI_DISTRIBUTE








definition ppt_paragraph_id :: "nat \<Rightarrow> nat \<Rightarrow> nat \<Rightarrow> pystr" where
  "ppt_paragraph_id slide_index shape_index paragraph_index =
     ustr ''ppt_s'' @ decimal slide_index @ ustr ''_sh'' @ decimal shape_index
     @ ustr ''_p'' @ decimal paragraph_index"

definition ppt_cell_id :: "nat \<Rightarrow> nat \<Rightarrow> nat \<Rightarrow> nat \<Rightarrow> pystr" where
  "ppt_cell_id slide_index shape_index row_index col_index =
     ustr ''ppt_s'' @ decimal slide_index @ ustr ''_sh'' @ decimal shape_index
     @ ustr ''_c'' @ decimal row_index @ ustr ''_'' @ decimal col_index"














subsection \<open>Word\<close>

text \<open>
  The objects of python-docx as the handler uses them. A font setting that is absent is
  \<open>None\<close>; a size is a length in English Metric Units. A paragraph names its style, and
  the document resolves the name (\<open>None\<close>: the default style) to the style's font.
\<close>

record docx_font =
  docx_font_name :: "pystr option"
  docx_font_size :: "nat option"

record docx_run =
  docx_run_text :: pystr
  docx_run_font :: docx_font

record docx_paragraph =
  docx_runs :: "docx_run list"
  docx_style :: "pystr option"

record docx_cell =
  cell_paragraphs :: "docx_paragraph list"

text \<open>
  python-docx addresses the cells of a table by layout grid position: \<open>row.cells\<close> has
  one entry for each column of the grid, and a grid position inside a merged cell gives
  that cell, so a merged cell is the same object at every grid position it spans and what
  is written through one position shows at the others. A table is therefore its cell
  objects (\<open>tcs\<close>) and, for each row and grid column, the index of the cell object found
  there (\<open>layout\<close>).
\<close>

record docx_table =
  tcs :: "docx_cell list"
  layout :: "nat list list"




definition word_paragraph_id :: "nat \<Rightarrow> pystr" where
  "word_paragraph_id paragraph_index = ustr ''doc_p'' @ decimal paragraph_index"

definition word_cell_id :: "nat \<Rightarrow> nat \<Rightarrow> nat \<Rightarrow> pystr" where
  "word_cell_id table_index row_index col_index =
     ustr ''doc_t'' @ decimal table_index @ ustr ''_r'' @ decimal row_index
     @ ustr ''_c'' @ decimal col_index"


text \<open>Python's truth value of an optional name and of an optional size.\<close>

definition name_set :: "pystr option \<Rightarrow> bool" where
  "name_set name \<longleftrightarrow> name \<noteq> None \<and> name \<noteq> Some []"










subsection \<open>Excel\<close>

text \<open>
  A workbook file stores, for each cell, a constant or a formula together with the value
  Excel computed for it last. A cell inside a merged range, other than the top-left one,
  is a \<open>MergedCell\<close> for openpyxl: its value is \<open>None\<close> and cannot be assigned.
\<close>

datatype cell_value =
    VNone
  | VStr pystr
  | VInt int
  | VFloat real
  | VBool bool
  | VDateTime real


text \<open>
  What a cell of a loaded workbook holds: a value, or (data type \<open>f\<close>) the text of a
  formula, which starts with \<open>=\<close>. \<open>cell.value\<close> is the value or the formula's text, a
  \<open>str\<close>.
\<close>

datatype cell_data =
    Value cell_value
  | FormulaText pystr


record xl_font =
  xl_font_name :: "pystr option"
  xl_font_size :: "real option"
  xl_bold :: bool
  xl_italic :: bool

record 'v xl_cell =
  cell_content :: 'v
  cell_font :: xl_font
  merged :: bool

text \<open>
  A worksheet: \<open>current_row\<close> is openpyxl's \<open>_current_row\<close>, 0 for a sheet that has
  no cell; \<open>sheet.iter_rows()\<close> yields nothing for such a sheet and otherwise the rows
  \<open>1 .. max_row\<close>, each with the cells of the columns \<open>1 .. max_column\<close>;
  \<open>cell.row\<close> and \<open>cell.column\<close> are the cell's coordinates.
\<close>

record 'v worksheet =
  current_row :: nat
  max_row :: nat
  max_column :: nat
  cell_at :: "nat \<Rightarrow> nat \<Rightarrow> 'v xl_cell"





definition excel_cell_id :: "nat \<Rightarrow> nat \<Rightarrow> nat \<Rightarrow> pystr" where
  "excel_cell_id sheet_index row_index column_index =
     ustr ''xls_s'' @ decimal sheet_index @ ustr ''_r'' @ decimal row_index
     @ ustr ''_c'' @ decimal column_index"


text \<open>
  \<open>cell.value = translated\<close>: a \<open>MergedCell\<close> raises \<open>AttributeError\<close>; an ordinary
  cell cuts the string to 32767 characters, raises \<open>IllegalCharacterError\<close> when it then
  holds a control character other than tab, line feed and carriage return, and takes it
  as a formula when it has more than one character and starts with \<open>=\<close>. When a font
  name is given, \<open>cell.font = cell.font.copy(name=font_name)\<close> follows.
\<close>

definition illegal_character :: "nat \<Rightarrow> bool" where
  "illegal_character c \<longleftrightarrow> c \<le> 8 \<or> c = 11 \<or> c = 12 \<or> (14 \<le> c \<and> c \<le> 31)"

definition bind_value :: "pystr \<Rightarrow> error + cell_data" where
  "bind_value translated =
     (let checked = take 32767 translated
      in if list_ex illegal_character checked then Inl IllegalCharacterError
         else Inr (if 1 < length checked \<and> hd checked = 61 then FormulaText checked
                   else Value (VStr checked)))"

definition set_translated ::
    "pystr \<Rightarrow> pystr option \<Rightarrow> cell_data xl_cell \<Rightarrow> error + cell_data xl_cell" where
  "set_translated translated font_name cell =
     (if merged cell then Inl AttributeError
      else case bind_value translated of
             Inl e \<Rightarrow> Inl e
           | Inr content \<Rightarrow>
               Inr (cell \<lparr> cell_content := content,
                           cell_font := (if name_set font_name
                                         then (cell_font cell) \<lparr> xl_font_name := font_name \<rparr>
                                         else cell_font cell) \<rparr>))"

text \<open>
  The body of the loops of \<open>apply_translations\<close> at one cell; the loops run over the
  cells that \<open>iter_rows\<close> yields.
\<close>

definition translate_cell ::
    "(pystr \<rightharpoonup> pystr) \<Rightarrow> pystr option \<Rightarrow> nat \<Rightarrow> cell_data worksheet \<Rightarrow> nat \<times> nat
      \<Rightarrow> error + cell_data worksheet" where
  "translate_cell translations font_name sheet_index sheet position =
     (case position of
        (row, column) \<Rightarrow>
          (case translations (excel_cell_id sheet_index row column) of
             None \<Rightarrow> Inr sheet
           | Some translated \<Rightarrow>
               (case set_translated translated font_name (cell_at sheet row column) of
                  Inl e \<Rightarrow> Inl e
                | Inr cell \<Rightarrow>
                    Inr (sheet \<lparr> cell_at := (cell_at sheet)
                           (row := (cell_at sheet row) (column := cell)) \<rparr>))))"






section \<open>A library instance for the examples\<close>

text \<open>
  The theorems below hold for every library. Their examples are evaluated with this one:
  \<open>json.loads\<close> on the texts that are a JSON array of string literals (with the simple
  escapes, without \<open>\u\<close>; \<open>None\<close> on every other text), \<open>json.dumps\<close> for strings
  that need no escaping, the code-fence search for messages without a code fence,
  \<open>islower\<close> for ASCII letters, and a provider with one fixed answer.
\<close>

definition unescape :: "nat \<Rightarrow> nat option" where
  "unescape e = map_of [(34, 34), (92, 92), (47, 47), (98, 8), (102, 12), (110, 10), (114, 13), (116, 9)] e"

fun string_literal :: "pystr \<Rightarrow> pystr \<Rightarrow> (pystr \<times> pystr) option" where
  "string_literal acc [] = None"
| "string_literal acc [c] = (if c = 34 then Some (rev acc, []) else None)"
| "string_literal acc (c # e # cs) =
     (if c = 34 then Some (rev acc, e # cs)
      else if c = 92 then
        (case unescape e of None \<Rightarrow> None | Some x \<Rightarrow> string_literal (x # acc) cs)
      else if c < 32 then None
      else string_literal (c # acc) (e # cs))"

definition json_ws :: "nat \<Rightarrow> bool" where
  "json_ws c \<longleftrightarrow> c = 32 \<or> c = 9 \<or> c = 10 \<or> c = 13"

lemma string_literal_shorter:
  "string_literal acc cs = Some (s, rest) \<Longrightarrow> length rest < length cs"
  by (induction acc cs rule: string_literal.induct) (auto split: if_splits option.splits)

function string_items :: "pystr \<Rightarrow> pystr list option" where
  "string_items cs =
     (case dropWhile json_ws cs of
        c # cs1 \<Rightarrow>
          if c = 34 then
            (case string_literal [] cs1 of
               None \<Rightarrow> None
             | Some (s, cs2) \<Rightarrow>
                 (case dropWhile json_ws cs2 of
                    d # cs3 \<Rightarrow>
                      if d = 44 then map_option ((#) s) (string_items cs3)
                      else if d = 93 \<and> dropWhile json_ws cs3 = [] then Some [s]
                      else None
                  | [] \<Rightarrow> None))
          else None
      | [] \<Rightarrow> None)"
  by pat_completeness auto
termination
proof (relation "measure length")
  show "wf (measure length)" by simp
next
  fix cs c cs1 x s cs2 d cs3
  assume a: "dropWhile json_ws cs = c # cs1" "string_literal [] cs1 = Some x" "(s, cs2) = x"
    "dropWhile json_ws cs2 = d # cs3"
  have "length (c # cs1) \<le> length cs" using a(1) length_dropWhile_le [of json_ws cs] by simp
  moreover have "length cs2 < length cs1" using a(2,3) string_literal_shorter by metis
  moreover have "length (d # cs3) \<le> length cs2" using a(4) length_dropWhile_le [of json_ws cs2] by simp
  ultimately show "(cs3, cs) \<in> measure length" by simp
qed

definition loads_string_array :: "pystr \<Rightarrow> json option" where
  "loads_string_array text =
     (case dropWhile json_ws text of
        c # cs \<Rightarrow>
          if c = 91 then
            (case dropWhile json_ws cs of
               d # ds \<Rightarrow>
                 if d = 93 \<and> dropWhile json_ws ds = [] then Some (JArray [])
                 else map_option (\<lambda>ss. JArray (map JString ss)) (string_items cs)
             | [] \<Rightarrow> None)
          else None
      | [] \<Rightarrow> None)"

definition dumps_plain :: "pystr list \<Rightarrow> pystr" where
  "dumps_plain texts =
     [91] @ concat (map (\<lambda>(i, t). (if i = 0 then [] else ustr '', '') @ [34] @ t @ [34])
                        (zip [0 ..< length texts] texts)) @ [93]"

definition example_lib :: "http_result \<Rightarrow> pylib" where
  "example_lib reply =
     \<lparr> json_loads = loads_string_array,
       json_dumps = dumps_plain,
       search_fenced = (\<lambda>message. None),
       islower = (\<lambda>c. 97 \<le> c \<and> c \<le> 122),
       repr_of = (\<lambda>v. []),
       requests_post = (\<lambda>req. reply) \<rparr>"

definition chat_reply :: "pystr \<Rightarrow> http_result" where
  "chat_reply content =
     Response 200 []
       (Some (JObject [(ustr ''choices'',
          JArray [JObject [(ustr ''message'', JObject [(ustr ''content'', JString content)])]])]))"

definition example_settings :: settings where
  "example_settings = \<lparr> openrouter_api_base = ustr ''https://openrouter.ai/api/v1'',
                          default_model = ustr ''anthropic/claude-3.5-sonnet'' \<rparr>"

definition example_config :: translation_config where
  "example_config = \<lparr> api_key = ustr ''sk-test'', config_model = [], source_lang = None,
                        target_lang = ustr ''es'', config_temperature = 0 \<rparr>"

subsection \<open>Example documents\<close>







section \<open>Properties of the translator\<close>

subsection \<open>Evaluating the examples\<close>

lemma ustr_eq_Nil [simp]: "ustr s = [] \<longleftrightarrow> s = []"
  by (simp add: ustr_def)

lemmas example_simps =
  example_lib_def loads_string_array_def ustr_def json_ws_def unescape_def
  strip_def lstrip_def rstrip_def isspace_def

lemma read_chat_reply:
  "read_message_content (JObject [(ustr ''choices'',
      JArray [JObject [(ustr ''message'', JObject [(ustr ''content'', JString content)])]])])
   = Inr (strip content)"
  by (simp add: read_message_content_def getitem_key_def getitem_0_def str_method_def)

lemma translate_texts_example:
  assumes "texts \<noteq> []"
  shows "fst (translate_texts (example_lib (chat_reply content)) st example_config texts)
           = translations_of_message (example_lib (chat_reply content)) texts (strip content)"
  using assms
  by (simp add: translate_texts_def Let_def example_lib_def chat_reply_def example_config_def
        read_chat_reply)

subsection \<open>The parsed array always has the expected length\<close>

lemma try_parse_length:
  "try_parse lib snippet n = Some parsed \<Longrightarrow> n \<noteq> 0 \<Longrightarrow> length parsed = n"
  by (auto simp: try_parse_def split: option.splits json.splits if_splits)

lemma extract_translations_length:
  assumes "extract_translations lib message n = Inr parsed" and "n \<noteq> 0"
  shows "length parsed = n"
  using assms try_parse_length
  by (fastforce simp: extract_translations_def split: option.splits if_splits)

lemma extract_translations_errors:
  "extract_translations lib message n = Inl e \<Longrightarrow> e = TranslationError CouldNotParse"
  by (auto simp: extract_translations_def split: option.splits if_splits)

text \<open>
  So \<open>translate_texts\<close> never calls \<open>_reconcile_translation_count\<close> on a list of
  another length, and never raises the count-mismatch error.
\<close>

lemma translations_of_message_skips_reconciliation:
  assumes "texts \<noteq> []"
  shows "translations_of_message lib texts message =
           (case extract_translations lib message (length texts) of
              Inl e \<Rightarrow> Inl e
            | Inr parsed \<Rightarrow> Inr (map (py_str lib) parsed))"
proof (cases "extract_translations lib message (length texts)")
  case (Inl e)
  then show ?thesis by (simp add: translations_of_message_def)
next
  case (Inr parsed)
  with assms have "length parsed = length texts"
    using extract_translations_length by fastforce
  with Inr show ?thesis by (simp add: translations_of_message_def)
qed

lemma translations_of_message_no_count_mismatch:
  "texts \<noteq> [] \<Longrightarrow>
     translations_of_message lib texts message \<noteq> Inl (TranslationError CountMismatch)"
  using extract_translations_errors [of lib message "length texts"]
  by (auto simp: translations_of_message_skips_reconciliation split: sum.splits)

lemma read_message_content_errors:
  "read_message_content data \<noteq> Inl (TranslationError t)"
  by (auto simp: read_message_content_def getitem_key_def getitem_0_def str_method_def
           split: sum.splits json.splits option.splits list.splits)

lemma translate_texts_no_count_mismatch:
  "fst (translate_texts lib st config texts) \<noteq> Inl (TranslationError CountMismatch)"
  using translations_of_message_no_count_mismatch [of texts lib]
  by (auto simp: read_message_content_errors translate_texts_def Let_def
           split: http_result.splits option.splits sum.splits)

text \<open>
  Claim C1 (an array whose length differs from the number of texts by no more than the
  tolerance is reconciled and \<open>translate_texts\<close> returns a list of that many strings):
  the code does not do this. For three texts and the response \<open>["Uno", "Dos"]\<close>, every
  step of the cascade parses the two-item array and drops it for its length, and
  \<open>translate_texts\<close> raises the parse error.
\<close>

theorem translate_texts_rejects_short_array:
  "fst (translate_texts (example_lib (chat_reply (ustr ''[\"Uno\", \"Dos\"]''))) example_settings
          example_config [ustr ''One'', ustr ''Two'', ustr ''Three''])
     = Inl (TranslationError CouldNotParse)"
  by (simp add: translate_texts_example)
     (simp add: translations_of_message_def extract_translations_def try_parse_def
        find_json_array_def example_simps)

subsection \<open>Beyond the tolerance\<close>

lemma reconcile_beyond_tolerance:
  assumes "int (max 3 (length original_texts div 5 + 1))
             < \<bar>int (length translations) - int (length original_texts)\<bar>"
  shows "reconcile_translation_count lib translations original_texts = Inr translations"
  using assms by (simp add: reconcile_translation_count_def Let_def)

text \<open>
  Claim C2 (an array further from the expected count than the tolerance is returned
  unreconciled and the caller then raises the count-mismatch error): the code does not
  reach that error. \<open>_reconcile_translation_count\<close> would return the list as it is
  (\<open>reconcile_beyond_tolerance\<close>), but for ten texts and the response \<open>["a", "b"]\<close>
  \<open>translate_texts\<close> raises the parse error before it calls it.
\<close>

theorem translate_texts_rejects_far_off_array:
  "fst (translate_texts (example_lib (chat_reply (ustr ''[\"a\", \"b\"]''))) example_settings
          example_config
          (map ustr [''one'', ''two'', ''three'', ''four'', ''five'', ''six'', ''seven'',
                     ''eight'', ''nine'', ''ten'']))
     = Inl (TranslationError CouldNotParse)"
  by (simp add: translate_texts_example)
     (simp add: translations_of_message_def extract_translations_def try_parse_def
        find_json_array_def example_simps)

subsection \<open>Padding\<close>

lemma pad_missing_items_drop:
  "pad_missing_items items originals = items @ map JString (drop (length items) originals)"
proof -
  have "drop n originals = map ((!) originals) [n ..< length originals]" for n
    by (metis add.left_neutral drop_map drop_upt map_nth)
  then show ?thesis by (simp add: pad_missing_items_def comp_def)
qed

text \<open>
  Claim C4: when the parsed list is shorter than the original texts and the difference is
  within the tolerance, \<open>_reconcile_translation_count\<close> returns the parsed items, in
  their positions, followed by the original texts of the missing positions; the result
  is as long as the original texts.
\<close>

theorem reconcile_pads_missing_tail:
  assumes "length translations < length originals"
    and "length originals - length translations \<le> max 3 (length originals div 5 + 1)"
  shows "reconcile_translation_count lib translations originals
           = Inr (translations @ map JString (drop (length translations) originals))
         \<and> length (translations @ map JString (drop (length translations) originals))
             = length originals"
  using assms by (auto simp add: reconcile_translation_count_def Let_def pad_missing_items_drop)

theorem reconcile_pads_missing_tail_witness:
  "reconcile_translation_count (example_lib RequestException)
      [JString (ustr ''Uno''), JString (ustr ''Dos'')] [ustr ''One'', ustr ''Two'', ustr ''Three'']
     = Inr [JString (ustr ''Uno''), JString (ustr ''Dos''), JString (ustr ''Three'')]"
  using reconcile_pads_missing_tail
          [of "[JString (ustr ''Uno''), JString (ustr ''Dos'')]"
              "[ustr ''One'', ustr ''Two'', ustr ''Three'']" "example_lib RequestException"]
  by simp

subsection \<open>A well-formed answer, and no texts\<close>

text \<open>
  Claim C5: for texts that are not empty, when the provider is contacted and answers
  (with a status below 400) a message whose content, as \<open>translate_texts\<close> reads it, is a
  JSON array of as many strings as there are texts, \<open>translate_texts\<close> returns those
  strings, unchanged and in their order.
\<close>

theorem translate_texts_well_formed:
  assumes "snd (translate_texts lib st config texts) = [req]"
    and "requests_post lib req = Response status_code text (Some data)"
    and "status_code < 400"
    and "read_message_content data = Inr content"
    and "json_loads lib content = Some (JArray (map JString translated))"
    and "length translated = length texts"
  shows "fst (translate_texts lib st config texts) = Inr translated"
proof -
  have "try_parse lib content (length texts) = Some (map JString translated)"
    using assms(5,6) by (simp add: try_parse_def)
  then have "translations_of_message lib texts content = Inr translated"
    using assms(6)
    by (simp add: translations_of_message_def extract_translations_def py_str_def comp_def)
  with assms(1-4) show ?thesis
    by (auto simp: translate_texts_def Let_def split: if_splits)
qed

theorem translate_texts_well_formed_witness:
  "fst (translate_texts (example_lib (chat_reply (ustr ''[\"Uno\", \"Dos\", \"Tres\"]'')))
          example_settings example_config [ustr ''One'', ustr ''Two'', ustr ''Three''])
     = Inr [ustr ''Uno'', ustr ''Dos'', ustr ''Tres'']"
proof -
  let ?content = "ustr ''[\"Uno\", \"Dos\", \"Tres\"]''"
  let ?lib = "example_lib (chat_reply ?content)"
  let ?texts = "[ustr ''One'', ustr ''Two'', ustr ''Three'']"
  let ?run = "translate_texts ?lib example_settings example_config ?texts"
  let ?data = "JObject [(ustr ''choices'',
      JArray [JObject [(ustr ''message'', JObject [(ustr ''content'', JString ?content)])]])]"
  have sent: "snd ?run = [hd (snd ?run)]"
    by (simp add: translate_texts_def Let_def example_config_def)
  have reply: "requests_post ?lib (hd (snd ?run)) = Response 200 [] (Some ?data)"
    by (simp add: example_lib_def chat_reply_def)
  have content: "read_message_content ?data = Inr (strip ?content)"
    by (rule read_chat_reply)
  have parsed: "json_loads ?lib (strip ?content)
                  = Some (JArray (map JString [ustr ''Uno'', ustr ''Dos'', ustr ''Tres'']))"
    by (simp add: example_simps)
  show ?thesis
    using translate_texts_well_formed [OF sent reply _ content parsed] by simp
qed

text \<open>
  Claim C10: for no texts, \<open>translate_texts\<close> returns the empty list and sends no
  request, whatever the configuration (with or without an API key) and the provider.
\<close>

theorem translate_texts_empty:
  "translate_texts lib st config [] = (Inr [], [])"
  by (simp add: translate_texts_def)

subsection \<open>The bracket scan\<close>

text \<open>
  Texts in which every bracket outside a string literal is matched. A piece is text
  outside strings (\<open>plain\<close>: no quote, backslash or bracket), a string literal in its
  quotes (the characters between the quotes, \<open>string_body\<close>, hold no quote but after a
  backslash), or an array: \<open>[\<close>, pieces, \<open>]\<close>. Arrays nest to any depth, and the
  literals may hold brackets.
\<close>

fun string_body :: "pystr \<Rightarrow> bool" where
  "string_body [] = True"
| "string_body [c] = (c \<noteq> 34 \<and> c \<noteq> 92)"
| "string_body (c # e # cs) =
     (if c = 92 then string_body cs else c \<noteq> 34 \<and> string_body (e # cs))"

definition plain :: "pystr \<Rightarrow> bool" where
  "plain s \<longleftrightarrow> list_all (\<lambda>c. c \<noteq> 34 \<and> c \<noteq> 92 \<and> c \<noteq> 91 \<and> c \<noteq> 93) s"

datatype piece = Plain pystr | Literal pystr | Array "piece list"

fun render :: "piece \<Rightarrow> pystr" where
  "render (Plain s) = s"
| "render (Literal body) = [34] @ body @ [34]"
| "render (Array pieces) = [91] @ concat (map render pieces) @ [93]"

fun well_formed :: "piece \<Rightarrow> bool" where
  "well_formed (Plain s) = plain s"
| "well_formed (Literal body) = string_body body"
| "well_formed (Array pieces) = list_all well_formed pieces"

lemma find_char_first:
  "c \<notin> set before \<Longrightarrow> find_char c (before @ c # rest) = Some (length before)"
  by (induction before) auto

lemma scan_array_plain:
  "plain s \<Longrightarrow>
     scan_array idx depth False False (s @ rest) = scan_array (idx + length s) depth False False rest"
  by (induction s arbitrary: idx) (auto simp: plain_def)

lemma scan_array_inside:
  "c \<noteq> 34 \<Longrightarrow> c \<noteq> 92 \<Longrightarrow>
     scan_array idx depth True False (c # rest) = scan_array (idx + 1) depth True False rest"
  by simp

lemma scan_array_escaped:
  "scan_array idx depth True False (92 # e # rest) = scan_array (idx + 2) depth True False rest"
  by (simp add: Let_def)

lemma scan_array_closing_quote:
  "scan_array idx depth True False (34 # rest) = scan_array (idx + 1) depth False False rest"
  by simp

lemma scan_array_opening_quote:
  "scan_array idx depth False False (34 # rest) = scan_array (idx + 1) depth True False rest"
  by simp

lemma scan_array_open:
  "scan_array idx depth False False (91 # rest) = scan_array (idx + 1) (depth + 1) False False rest"
  by simp

lemma scan_array_close:
  "scan_array idx depth False False (93 # rest)
     = (if depth = 1 then Some idx else scan_array (idx + 1) (depth - 1) False False rest)"
  by simp

lemma scan_array_string_body:
  "string_body body \<Longrightarrow>
     scan_array idx depth True False (body @ 34 # rest)
       = scan_array (idx + length body + 1) depth False False rest"
proof (induction body arbitrary: idx rule: string_body.induct)
  case 1
  show ?case using scan_array_closing_quote by simp
next
  case (2 c)
  then show ?case
    using scan_array_inside [of c idx depth "34 # rest"] scan_array_closing_quote [of "idx + 1" depth rest]
    by simp
next
  case (3 c e cs)
  show ?case
  proof (cases "c = 92")
    case True
    with "3.prems" have "string_body cs" by simp
    from "3.IH"(1) [OF True this, of "idx + 2"] True show ?thesis
      using scan_array_escaped [of idx depth e "cs @ 34 # rest"] by simp
  next
    case False
    with "3.prems" have c: "c \<noteq> 34" and rest: "string_body (e # cs)" by simp_all
    from "3.IH"(2) [OF False rest, of "idx + 1"] show ?thesis
      using scan_array_inside [OF c False, of idx depth "(e # cs) @ 34 # rest"] by simp
  qed
qed

lemma scan_array_pieces:
  assumes "\<And>piece idx rest. piece \<in> set pieces \<Longrightarrow>
             scan_array idx depth False False (render piece @ rest)
               = scan_array (idx + length (render piece)) depth False False rest"
  shows "scan_array idx depth False False (concat (map render pieces) @ rest)
           = scan_array (idx + length (concat (map render pieces))) depth False False rest"
  using assms
proof (induction pieces arbitrary: idx)
  case Nil
  show ?case by simp
next
  case (Cons piece pieces)
  have "scan_array idx depth False False (concat (map render (piece # pieces)) @ rest)
          = scan_array (idx + length (render piece)) depth False False
              (concat (map render pieces) @ rest)"
    using Cons.prems [of piece idx "concat (map render pieces) @ rest"] by simp
  also have "\<dots> = scan_array (idx + length (render piece) + length (concat (map render pieces)))
                      depth False False rest"
    using Cons.IH [of "idx + length (render piece)"] Cons.prems by simp
  finally show ?case by (simp add: add.assoc)
qed

lemma scan_array_piece:
  "well_formed piece \<Longrightarrow> 0 < depth \<Longrightarrow>
     scan_array idx depth False False (render piece @ rest)
       = scan_array (idx + length (render piece)) depth False False rest"
proof (induction piece arbitrary: idx depth rest)
  case (Plain s)
  then show ?case using scan_array_plain by simp
next
  case (Literal body)
  then have "string_body body" by simp
  from scan_array_string_body [OF this, of "idx + 1" depth rest]
  show ?case using scan_array_opening_quote [of idx depth "body @ 34 # rest"] by simp
next
  case (Array pieces)
  have inner: "scan_array i (depth + 1) False False (render piece @ r)
                 = scan_array (i + length (render piece)) (depth + 1) False False r"
    if "piece \<in> set pieces" for piece i r
    using Array.IH [OF that, of "depth + 1" i r] that Array.prems by (simp add: list_all_iff)
  have "scan_array idx depth False False (render (Array pieces) @ rest)
          = scan_array (idx + 1) (depth + 1) False False (concat (map render pieces) @ 93 # rest)"
    using scan_array_open [of idx depth "concat (map render pieces) @ 93 # rest"] by simp
  also have "\<dots> = scan_array (idx + 1 + length (concat (map render pieces))) (depth + 1)
                      False False (93 # rest)"
    using scan_array_pieces [of pieces "depth + 1" "idx + 1" "93 # rest"] inner by blast
  also have "\<dots> = scan_array (idx + 1 + length (concat (map render pieces)) + 1) depth
                      False False rest"
    using scan_array_close [of "idx + 1 + length (concat (map render pieces))" "depth + 1" rest]
      Array.prems(2) by simp
  finally show ?case by (simp add: add.assoc add.commute add.left_commute)
qed

lemma scan_array_matching:
  assumes "list_all well_formed pieces"
  shows "scan_array start 0 False False (render (Array pieces) @ rest)
           = Some (start + length (render (Array pieces)) - 1)"
proof -
  have inner: "scan_array i 1 False False (render piece @ r)
                 = scan_array (i + length (render piece)) 1 False False r"
    if "piece \<in> set pieces" for piece i r
    using scan_array_piece [of piece 1 i r] that assms by (simp add: list_all_iff)
  have "scan_array start 0 False False (render (Array pieces) @ rest)
          = scan_array (start + 1) 1 False False (concat (map render pieces) @ 93 # rest)"
    using scan_array_open [of start 0 "concat (map render pieces) @ 93 # rest"] by simp
  also have "\<dots> = scan_array (start + 1 + length (concat (map render pieces))) 1
                      False False (93 # rest)"
    using scan_array_pieces [of pieces 1 "start + 1" "93 # rest"] inner by blast
  also have "\<dots> = Some (start + 1 + length (concat (map render pieces)))"
    using scan_array_close [of "start + 1 + length (concat (map render pieces))" 1 rest] by simp
  finally show ?thesis by simp
qed

text \<open>
  Claim C6: \<open>_find_json_array\<close> starts at the first \<open>[\<close>, counts the depth of the
  brackets outside quoted strings, does not count the brackets inside them (a backslash
  escapes the character after it) and returns the text up to the \<open>]\<close> that matches the
  first \<open>[\<close>. For every array whose elements are text outside strings, string literals
  and arrays nested to any depth, whatever brackets the strings contain, whatever text
  without \<open>[\<close> stands before the array and whatever text follows it, the result is
  exactly the text of the array: the scan ends neither at a \<open>]\<close> inside a string nor at
  the \<open>]\<close> of a nested array. The witness has the example of the specification, where
  the text found parses to the array of the two strings \<open>a]b\<close> and \<open>c\<close>, an array
  with nested arrays, and one with an escaped quote before a \<open>]\<close> in a string.
\<close>

theorem find_json_array_matching_bracket:
  assumes "91 \<notin> set before" and "list_all well_formed pieces"
  shows "find_json_array (before @ render (Array pieces) @ rest) = Some (render (Array pieces))"
proof -
  define array where "array = render (Array pieces)"
  obtain tl where tl: "array = 91 # tl" by (simp add: array_def)
  have start: "find_char 91 (before @ array @ rest) = Some (length before)"
    using find_char_first [OF assms(1), of "tl @ rest"] tl by simp
  have scan: "scan_array (length before) 0 False False (array @ rest)
                = Some (length before + length array - 1)"
    unfolding array_def by (rule scan_array_matching [OF assms(2)])
  have "find_json_array (before @ array @ rest) = Some array"
    using start scan tl by (simp add: find_json_array_def)
  then show ?thesis by (simp only: array_def)
qed

theorem find_json_array_matching_bracket_witness:
  "find_json_array (ustr ''Note: see [ \"a]b\", \"c\" ] end'') = Some (ustr ''[ \"a]b\", \"c\" ]'')
   \<and> loads_string_array (ustr ''[ \"a]b\", \"c\" ]'')
       = Some (JArray [JString (ustr ''a]b''), JString (ustr ''c'')])
   \<and> find_json_array (ustr ''x [[\"a]\"], [], \"b[\"] y ] z'') = Some (ustr ''[[\"a]\"], [], \"b[\"]'')
   \<and> find_json_array (ustr ''[\"a'' @ [92, 34] @ ustr '']\", [1]] ]'')
       = Some (ustr ''[\"a'' @ [92, 34] @ ustr '']\", [1]]'')"
proof -
  have "find_json_array (ustr ''Note: see ''
          @ render (Array [Plain (ustr '' ''), Literal (ustr ''a]b''), Plain (ustr '', ''),
                           Literal (ustr ''c''), Plain (ustr '' '')]) @ ustr '' end'')
      = Some (render (Array [Plain (ustr '' ''), Literal (ustr ''a]b''), Plain (ustr '', ''),
                           Literal (ustr ''c''), Plain (ustr '' '')]))"
    by (rule find_json_array_matching_bracket) (simp_all add: plain_def ustr_def)
  then have "find_json_array (ustr ''Note: see [ \"a]b\", \"c\" ] end'') = Some (ustr ''[ \"a]b\", \"c\" ]'')"
    by (simp add: ustr_def)
  moreover have "loads_string_array (ustr ''[ \"a]b\", \"c\" ]'')
       = Some (JArray [JString (ustr ''a]b''), JString (ustr ''c'')])"
    by (simp add: example_simps)
  moreover have "find_json_array (ustr ''x ''
          @ render (Array [Array [Literal (ustr ''a]'')], Plain (ustr '', ''), Array [],
                           Plain (ustr '', ''), Literal (ustr ''b['')]) @ ustr '' y ] z'')
      = Some (render (Array [Array [Literal (ustr ''a]'')], Plain (ustr '', ''), Array [],
                           Plain (ustr '', ''), Literal (ustr ''b['')]))"
    by (rule find_json_array_matching_bracket) (simp_all add: plain_def ustr_def)
  then have "find_json_array (ustr ''x [[\"a]\"], [], \"b[\"] y ] z'') = Some (ustr ''[[\"a]\"], [], \"b[\"]'')"
    by (simp add: ustr_def)
  moreover have "find_json_array ([]
          @ render (Array [Literal (ustr ''a'' @ [92, 34] @ ustr '']''), Plain (ustr '', ''),
                           Array [Plain (ustr ''1'')]]) @ ustr '' ]'')
      = Some (render (Array [Literal (ustr ''a'' @ [92, 34] @ ustr '']''), Plain (ustr '', ''),
                           Array [Plain (ustr ''1'')]]))"
    by (rule find_json_array_matching_bracket) (simp_all add: plain_def ustr_def)
  then have "find_json_array (ustr ''[\"a'' @ [92, 34] @ ustr '']\", [1]] ]'')
       = Some (ustr ''[\"a'' @ [92, 34] @ ustr '']\", [1]]'')"
    by (simp add: ustr_def)
  ultimately show ?thesis by simp
qed

subsection \<open>Merging\<close>

text \<open>
  The merge heuristic in words, twice. \<open>claimed_signal\<close> and \<open>claimed_join\<close> are
  the three signals and the joining rule as the specification lists them;
  \<open>merge_signal\<close> and \<open>join_fragments\<close> add what the code has besides: an item that
  is blank is a signal itself, the second signal needs a previous item that is not the
  empty string, and a fragment that is blank is left out without a space. The merge point
  is the position before the first item with a signal, or of the last two items.
\<close>

definition starts_with :: "(nat \<Rightarrow> bool) \<Rightarrow> pystr \<Rightarrow> bool" where
  "starts_with P s \<longleftrightarrow> s \<noteq> [] \<and> P (hd s)"

definition closing :: "nat \<Rightarrow> bool" where
  "closing c \<longleftrightarrow> c \<in> set closing_punctuation"

definition claimed_signal :: "pylib \<Rightarrow> pystr \<Rightarrow> pystr \<Rightarrow> bool" where
  "claimed_signal lib previous item \<longleftrightarrow>
     starts_with closing (lstrip item)
     \<or> \<not> endswith_any (rstrip previous) terminal_punctuation
     \<or> starts_with (islower lib) (lstrip item)"

definition merge_signal :: "pylib \<Rightarrow> pystr \<Rightarrow> pystr \<Rightarrow> bool" where
  "merge_signal lib previous item \<longleftrightarrow>
     lstrip item = []
     \<or> starts_with closing (lstrip item)
     \<or> (previous \<noteq> [] \<and> \<not> endswith_any (rstrip previous) terminal_punctuation)
     \<or> starts_with (islower lib) (lstrip item)"

definition merge_point :: "(pystr \<Rightarrow> pystr \<Rightarrow> bool) \<Rightarrow> pystr list \<Rightarrow> nat" where
  "merge_point signal items =
     (case find (\<lambda>k. signal (items ! (k - 1)) (items ! k)) [1 ..< length items] of
        Some k \<Rightarrow> k - 1
      | None \<Rightarrow> length items - 2)"

definition claimed_join :: "pystr \<Rightarrow> pystr \<Rightarrow> pystr" where
  "claimed_join left right =
     (if starts_with closing (lstrip right) then rstrip left @ lstrip right
      else rstrip left @ [32] @ lstrip right)"

definition join_fragments :: "pystr \<Rightarrow> pystr \<Rightarrow> pystr" where
  "join_fragments left right =
     (if rstrip left = [] then lstrip right
      else if lstrip right = [] then rstrip left
      else claimed_join left right)"

definition merge_pair :: "(pystr \<Rightarrow> pystr \<Rightarrow> pystr) \<Rightarrow> nat \<Rightarrow> pystr list \<Rightarrow> pystr list" where
  "merge_pair join k items = take k items @ join (items ! k) (items ! (k + 1)) # drop (k + 2) items"

definition claimed_merge :: "pylib \<Rightarrow> pystr list \<Rightarrow> pystr list" where
  "claimed_merge lib items = merge_pair claimed_join (merge_point (claimed_signal lib) items) items"

definition merge_once :: "pylib \<Rightarrow> pystr list \<Rightarrow> pystr list" where
  "merge_once lib items = merge_pair join_fragments (merge_point (merge_signal lib) items) items"

lemma scan_merge_strings:
  assumes "items = before @ previous # rest" and "idx = length before + 1"
  shows "scan_merge lib idx (JString previous) (map JString rest)
           = Inr (map_option (\<lambda>k. k - 1)
                   (find (\<lambda>k. merge_signal lib (items ! (k - 1)) (items ! k)) [idx ..< length items]))"
  using assms
proof (induction rest arbitrary: before previous idx)
  case Nil
  then show ?case by simp
next
  case (Cons item rest)
  have "idx < length items" using Cons.prems by simp
  then have upt: "[idx ..< length items] = idx # [idx + 1 ..< length items]"
    by (simp add: upt_conv_Cons)
  have prev: "items ! (idx - 1) = previous" and cur: "items ! idx = item"
    using Cons.prems by (simp_all add: nth_append)
  show ?case
  proof (cases "merge_signal lib previous item")
    case True
    then show ?thesis
      unfolding upt using prev cur
      by (auto simp: merge_signal_def starts_with_def closing_def str_method_def Let_def)
  next
    case False
    have "items = (before @ [previous]) @ item # rest" using Cons.prems by simp
    from Cons.IH [OF this, of "idx + 1"] Cons.prems(2)
    have "scan_merge lib (idx + 1) (JString item) (map JString rest)
            = Inr (map_option (\<lambda>k. k - 1)
                (find (\<lambda>k. merge_signal lib (items ! (k - 1)) (items ! k)) [idx + 1 ..< length items]))"
      by simp
    with False show ?thesis
      unfolding upt using prev cur
      by (auto simp: merge_signal_def starts_with_def closing_def str_method_def Let_def)
  qed
qed

lemma find_merge_index_strings:
  "find_merge_index lib (map JString items) = Inr (merge_point (merge_signal lib) items)"
proof (cases items)
  case Nil
  then show ?thesis by (simp add: find_merge_index_def merge_point_def)
next
  case (Cons first rest)
  from scan_merge_strings [of items "[]" first rest 1 lib] Cons
  show ?thesis
    by (auto simp: find_merge_index_def merge_point_def split: option.splits)
qed

lemma merge_point_bound:
  assumes "1 < length items"
  shows "merge_point signal items + 2 \<le> length items"
  using find_merge_index_bound
proof (cases "find (\<lambda>k. signal (items ! (k - 1)) (items ! k)) [1 ..< length items]")
  case None
  with assms show ?thesis by (simp add: merge_point_def)
next
  case (Some k)
  then have "k \<in> set [1 ..< length items]" by (auto simp: find_Some_iff)
  with Some show ?thesis by (simp add: merge_point_def)
qed

lemma concat_segments_strings:
  "concat_segments (JString left) (JString right) = Inr (JString (join_fragments left right))"
  by (simp add: concat_segments_def str_method_def concat_str_def join_fragments_def
        claimed_join_def starts_with_def closing_def)

lemma length_merge_pair:
  "k + 2 \<le> length items \<Longrightarrow> length (merge_pair join k items) = length items - 1"
  by (simp add: merge_pair_def)

lemma merge_extra_items_step:
  assumes "expected < length items" and "1 < length items"
  shows "merge_extra_items lib (map JString items) expected
           = merge_extra_items lib (map JString (merge_once lib items)) expected"
proof -
  let ?k = "merge_point (merge_signal lib) items"
  have k: "?k + 2 \<le> length items" using merge_point_bound [OF assms(2)] .
  then have "concat_segments (map JString items ! ?k) (map JString items ! (?k + 1))
               = Inr (JString (join_fragments (items ! ?k) (items ! (?k + 1))))"
    by (simp add: concat_segments_strings)
  moreover have "take ?k (map JString items)
                   @ JString (join_fragments (items ! ?k) (items ! (?k + 1)))
                   # drop (?k + 2) (map JString items)
                 = map JString (merge_once lib items)"
    by (simp add: merge_once_def merge_pair_def take_map drop_map)
  ultimately show ?thesis
    using assms by (subst merge_extra_items.simps) (simp add: find_merge_index_strings)
qed

lemma merge_extra_items_strings:
  assumes "1 \<le> expected" and "expected \<le> length items"
  shows "merge_extra_items lib (map JString items) expected
           = Inr (map JString ((merge_once lib ^^ (length items - expected)) items))
         \<and> length ((merge_once lib ^^ (length items - expected)) items) = expected"
  using assms
proof (induction "length items - expected" arbitrary: items)
  case 0
  then show ?case by (subst merge_extra_items.simps) simp
next
  case (Suc n)
  then have longer: "expected < length items" "1 < length items" by simp_all
  have len: "length (merge_once lib items) = length items - 1"
    using merge_point_bound [OF longer(2)] by (simp add: merge_once_def length_merge_pair)
  with Suc.hyps(2) longer have "n = length (merge_once lib items) - expected" by simp
  from Suc.hyps(1) [OF this Suc.prems(1)] len longer
  have "merge_extra_items lib (map JString (merge_once lib items)) expected
          = Inr (map JString ((merge_once lib ^^ n) (merge_once lib items)))
        \<and> length ((merge_once lib ^^ n) (merge_once lib items)) = expected"
    using \<open>n = length (merge_once lib items) - expected\<close> by simp
  then show ?case
    using merge_extra_items_step [OF longer] Suc.hyps(2) [symmetric]
    by (simp add: funpow_swap1)
qed

text \<open>
  Claim C3, amended: when there is at least one original text (the expected count is at
  least 1) and the parsed strings are more than the original texts, within the tolerance,
  \<open>_reconcile_translation_count\<close> merges two adjacent items at the merge point of
  \<open>merge_signal\<close> with \<open>join_fragments\<close>, once for every item too many, and the
  result is as long as the original texts. The example of the specification is the
  witness.
\<close>

theorem reconcile_merges_extra_items:
  assumes "originals \<noteq> []"
    and "length originals < length items"
    and "length items - length originals \<le> max 3 (length originals div 5 + 1)"
  shows "reconcile_translation_count lib (map JString items) originals
           = Inr (map JString ((merge_once lib ^^ (length items - length originals)) items))
         \<and> length ((merge_once lib ^^ (length items - length originals)) items)
             = length originals"
proof -
  have "1 \<le> length originals" using assms(1) by (cases originals) simp_all
  from merge_extra_items_strings [OF this, of items lib] assms
  show ?thesis
    by (auto simp: reconcile_translation_count_def Let_def)
qed


theorem reconcile_merges_extra_items_witness:
  "reconcile_translation_count (example_lib RequestException)
      (map JString [ustr ''Hello'', ustr ''world.'', ustr ''Goodbye'']) [ustr ''One'', ustr ''Two'']
     = Inr (map JString [ustr ''Hello world.'', ustr ''Goodbye''])"
proof -
  have "(merge_once (example_lib RequestException) ^^ 1) [ustr ''Hello'', ustr ''world.'', ustr ''Goodbye'']
          = [ustr ''Hello world.'', ustr ''Goodbye'']"
    by (simp add: merge_once_def merge_pair_def merge_point_def merge_signal_def join_fragments_def
          claimed_join_def starts_with_def closing_def closing_punctuation_def terminal_punctuation_def
          endswith_any_def upt_conv_Cons example_simps)
  with reconcile_merges_extra_items
         [of "[ustr ''One'', ustr ''Two'']" "[ustr ''Hello'', ustr ''world.'', ustr ''Goodbye'']"
             "example_lib RequestException"]
  show ?thesis by simp
qed

text \<open>
  Claim C3 as stated fails on items that are empty or blank. For the items \<open>""\<close>,
  \<open>"B."\<close>, \<open>"c"\<close> and two original texts, the three signals of the claim merge the
  first two items (the empty first item does not end in terminal punctuation), and the
  code merges the last two. For \<open>"A. "\<close>, \<open>" "\<close>, \<open>"B."\<close> the code merges the blank
  item into the first, and the signals of the claim merge it into the last. And with no
  original text (the expected count is 0) nothing is merged: the items are returned as
  they are, one more than expected.
\<close>

theorem claimed_merge_counterexample:
  "reconcile_translation_count (example_lib RequestException)
      (map JString [[], ustr ''B.'', ustr ''c'']) [ustr ''One'', ustr ''Two'']
     = Inr (map JString [[], ustr ''B. c''])
   \<and> claimed_merge (example_lib RequestException) [[], ustr ''B.'', ustr ''c'']
       = [ustr '' B.'', ustr ''c'']
   \<and> reconcile_translation_count (example_lib RequestException)
        (map JString [[], ustr ''B.'', ustr ''c'']) [ustr ''One'', ustr ''Two'']
       \<noteq> Inr (map JString (claimed_merge (example_lib RequestException)
                                [[], ustr ''B.'', ustr ''c'']))
   \<and> reconcile_translation_count (example_lib RequestException)
        (map JString [ustr ''A. '', ustr '' '', ustr ''B.'']) [ustr ''One'', ustr ''Two'']
       = Inr (map JString [ustr ''A.'', ustr ''B.''])
   \<and> claimed_merge (example_lib RequestException) [ustr ''A. '', ustr '' '', ustr ''B.'']
       = [ustr ''A. '', ustr '' B.'']
   \<and> reconcile_translation_count (example_lib RequestException)
        (map JString [ustr ''A. '', ustr '' '', ustr ''B.'']) [ustr ''One'', ustr ''Two'']
       \<noteq> Inr (map JString (claimed_merge (example_lib RequestException)
                                [ustr ''A. '', ustr '' '', ustr ''B.'']))
   \<and> reconcile_translation_count (example_lib RequestException)
        (map JString [ustr ''Hello'']) []
       = Inr (map JString [ustr ''Hello''])"
proof -
  let ?lib = "example_lib RequestException"
  note merge_simps =
    merge_pair_def merge_point_def join_fragments_def claimed_join_def starts_with_def closing_def
    closing_punctuation_def terminal_punctuation_def endswith_any_def upt_conv_Cons example_simps
  have code: "reconcile_translation_count ?lib (map JString items) [ustr ''One'', ustr ''Two'']
                = Inr (map JString (merge_once ?lib items))"
    if "length items = 3" for items
    using merge_extra_items_strings [of "Suc (Suc 0)" items ?lib] that
    by (simp add: reconcile_translation_count_def)
  have "merge_once ?lib [[], ustr ''B.'', ustr ''c''] = [[], ustr ''B. c'']"
    and "merge_once ?lib [ustr ''A. '', ustr '' '', ustr ''B.''] = [ustr ''A.'', ustr ''B.'']"
    by (simp_all add: merge_once_def merge_signal_def merge_simps)
  moreover have "claimed_merge ?lib [[], ustr ''B.'', ustr ''c''] = [ustr '' B.'', ustr ''c'']"
    and "claimed_merge ?lib [ustr ''A. '', ustr '' '', ustr ''B.''] = [ustr ''A. '', ustr '' B.'']"
    by (simp_all add: claimed_merge_def claimed_signal_def merge_simps)
  moreover have "reconcile_translation_count ?lib (map JString [ustr ''Hello'']) []
                   = Inr (map JString [ustr ''Hello''])"
    by (simp add: reconcile_translation_count_def)
  ultimately show ?thesis
    using code [of "[[], ustr ''B.'', ustr ''c'']"]
          code [of "[ustr ''A. '', ustr '' '', ustr ''B.'']"]
    by (simp add: ustr_def)
qed

section \<open>Properties of the document handlers\<close>

subsection \<open>Identifiers\<close>

text \<open>
  The decimal digits of a number determine it, and a character that is no digit ends
  them: an identifier determines the indices it was made from.
\<close>

definition digit :: "nat \<Rightarrow> bool" where
  "digit c \<longleftrightarrow> 48 \<le> c \<and> c \<le> 57"

definition undecimal :: "pystr \<Rightarrow> nat" where
  "undecimal s = foldl (\<lambda>n c. 10 * n + (c - 48)) 0 s"

lemma undecimal_decimal: "undecimal (decimal n) = n"
proof (induction n rule: decimal.induct)
  case (1 n)
  show ?case
  proof (cases "n < 10")
    case True
    then show ?thesis by (subst decimal.simps) (simp add: undecimal_def)
  next
    case False
    with 1 have "undecimal (decimal (n div 10)) = n div 10" by simp
    with False show ?thesis by (subst decimal.simps) (simp add: undecimal_def)
  qed
qed

lemma decimal_inj: "decimal m = decimal n \<Longrightarrow> m = n"
  by (metis undecimal_decimal)

lemma decimal_digits: "list_all digit (decimal n)"
proof (induction n rule: decimal.induct)
  case (1 n)
  show ?case
  proof (cases "n < 10")
    case True
    then show ?thesis by (subst decimal.simps) (simp add: digit_def)
  next
    case False
    with 1 have "list_all digit (decimal (n div 10))" by simp
    moreover have "n mod 10 < 10" by simp
    ultimately show ?thesis using False
      by (subst decimal.simps) (simp add: digit_def)
  qed
qed

lemma digits_split:
  assumes "list_all digit xs" and "list_all digit ys"
    and "\<not> digit c" and "\<not> digit d"
    and "xs @ c # r = ys @ d # r'"
  shows "xs = ys \<and> c = d \<and> r = r'"
  using assms
proof (induction xs arbitrary: ys)
  case Nil
  then show ?case by (cases ys) auto
next
  case (Cons x xs)
  then show ?case by (cases ys) auto
qed

lemma decimal_sep_eq [simp]:
  assumes "\<not> digit c" and "\<not> digit d"
  shows "decimal m @ c # r = decimal n @ d # r' \<longleftrightarrow> m = n \<and> c = d \<and> r = r'"
  using digits_split [OF decimal_digits decimal_digits assms] decimal_inj by blast

lemma decimal_eq [simp]: "decimal m = decimal n \<longleftrightarrow> m = n"
  using decimal_inj by blast

lemma not_digit_simps [simp]: "\<not> digit 95"
  by (simp add: digit_def)

lemma ppt_paragraph_id_eq [simp]:
  "ppt_paragraph_id s sh p = ppt_paragraph_id s' sh' p' \<longleftrightarrow> s = s' \<and> sh = sh' \<and> p = p'"
  by (auto simp: ppt_paragraph_id_def ustr_def)

lemma ppt_cell_id_eq [simp]:
  "ppt_cell_id s sh r c = ppt_cell_id s' sh' r' c' \<longleftrightarrow> s = s' \<and> sh = sh' \<and> r = r' \<and> c = c'"
  by (auto simp: ppt_cell_id_def ustr_def)

lemma ppt_ids_differ [simp]:
  "ppt_paragraph_id s sh p \<noteq> ppt_cell_id s' sh' r c"
  "ppt_cell_id s' sh' r c \<noteq> ppt_paragraph_id s sh p"
  by (auto simp: ppt_paragraph_id_def ppt_cell_id_def ustr_def)

lemma word_paragraph_id_eq [simp]:
  "word_paragraph_id p = word_paragraph_id p' \<longleftrightarrow> p = p'"
  by (auto simp: word_paragraph_id_def ustr_def)

lemma word_cell_id_eq [simp]:
  "word_cell_id t r c = word_cell_id t' r' c' \<longleftrightarrow> t = t' \<and> r = r' \<and> c = c'"
  by (auto simp: word_cell_id_def ustr_def)

lemma word_ids_differ [simp]:
  "word_paragraph_id p \<noteq> word_cell_id t r c"
  "word_cell_id t r c \<noteq> word_paragraph_id p"
  by (auto simp: word_paragraph_id_def word_cell_id_def ustr_def)

lemma excel_cell_id_eq [simp]:
  "excel_cell_id s r c = excel_cell_id s' r' c' \<longleftrightarrow> s = s' \<and> r = r' \<and> c = c'"
  by (auto simp: excel_cell_id_def ustr_def)







subsection \<open>Extraction from a presentation\<close>






subsection \<open>Extraction from a Word document\<close>







subsection \<open>Extraction from a workbook\<close>
















subsection \<open>The example documents, extracted\<close>






subsection \<open>Identifiers and texts of the extracted elements\<close>



subsection \<open>What the spreadsheet handler extracts\<close>






subsection \<open>Locations\<close>

text \<open>
  What a document holds at a location, \<open>None\<close> where it has no such location: the
  paragraph or the table cell of a shape, the paragraph of a Word document, the cell at a
  grid position of a Word table, the cell of a sheet of a workbook file.
  \<open>same_cell_ids\<close> lists the identifiers of the grid positions of a Word table that
  show the same cell as a given one (itself included). \<open>resaved\<close> is a cell of a
  workbook file after openpyxl has loaded it, with its formulas, and saved it again.
\<close>

definition nth_opt :: "'a list \<Rightarrow> nat \<Rightarrow> 'a option" where
  "nth_opt xs i = (if i < length xs then Some (xs ! i) else None)"





definition docx_cell_ref :: "docx_table \<Rightarrow> nat \<Rightarrow> nat \<Rightarrow> nat option" where
  "docx_cell_ref table r c = Option.bind (nth_opt (layout table) r) (\<lambda>row. nth_opt row c)"





subsection \<open>Loops that may raise\<close>







lemma foldl_result_preserves:
  assumes "foldl_result f state xs = Inr state'"
    and "\<And>state x state'. x \<in> set xs \<Longrightarrow> f state x = Inr state' \<Longrightarrow> g state' = g state"
  shows "g state' = g state"
  using assms
proof (induction xs arbitrary: state)
  case Nil
  then show ?case by simp
next
  case (Cons x xs)
  from Cons.prems(1) obtain mid where mid: "f state x = Inr mid"
      "foldl_result f mid xs = Inr state'"
    by (auto split: sum.splits)
  from Cons.IH [OF mid(2)] Cons.prems(2) have "g state' = g mid" by auto
  moreover from Cons.prems(2) [of x state mid] mid(1) have "g mid = g state" by simp
  ultimately show ?case by simp
qed

subsection \<open>Text that can be stored\<close>






subsection \<open>What \<open>apply_translations\<close> leaves alone in a presentation\<close>











subsection \<open>What \<open>apply_translations\<close> leaves alone in a Word document\<close>





lemma docx_cell_ref_tcs [simp]:
  "docx_cell_ref (table \<lparr> tcs := cells \<rparr>) r c = docx_cell_ref table r c"
  by (simp add: docx_cell_ref_def)






subsection \<open>What \<open>apply_translations\<close> leaves alone in a workbook\<close>


lemma translate_cell_range:
  assumes "translate_cell translations font_name s sheet position = Inr sheet'"
  shows "current_row sheet' = current_row sheet \<and> max_row sheet' = max_row sheet
         \<and> max_column sheet' = max_column sheet"
  using assms by (cases position) (auto simp: translate_cell_def split: option.splits sum.splits)


lemma translate_cells_range:
  assumes "foldl_result (translate_cell translations font_name s) sheet positions = Inr sheet'"
  shows "current_row sheet' = current_row sheet \<and> max_row sheet' = max_row sheet
         \<and> max_column sheet' = max_column sheet"
proof -
  have "(current_row sheet', max_row sheet', max_column sheet')
          = (current_row sheet, max_row sheet, max_column sheet)"
    by (rule foldl_result_preserves [OF assms,
          where g = "\<lambda>sheet. (current_row sheet, max_row sheet, max_column sheet)"])
       (use translate_cell_range in blast)
  then show ?thesis by simp
qed















end
